theory Spec2Isabelle
  imports Main
begin

section \<open>Values of the Python runtime that the module handles\<close>

text \<open>
  The module \<^verbatim>\<open>logging_with_arcpy.py\<close> works on the root logger of Python's
  \<^verbatim>\<open>logging\<close> package. Handlers are objects: the root logger keeps a list of
  references to them and the module mutates them in place, so the model keeps an explicit
  object store indexed by references.
\<close>

type_synonym ref = nat

text \<open>An exception is represented by the name of its class.\<close>

datatype exn = Raised string

text \<open>The numeric severity levels of \<^verbatim>\<open>logging\<close>.\<close>

definition NOTSET :: int where "NOTSET = 0"
definition DEBUG :: int where "DEBUG = 10"
definition INFO :: int where "INFO = 20"
definition WARNING :: int where "WARNING = 30"
definition ERROR :: int where "ERROR = 40"
definition CRITICAL :: int where "CRITICAL = 50"

text \<open>
  A \<^verbatim>\<open>logging.Formatter\<close> holds a format template and a date format; the date
  format is \<^verbatim>\<open>None\<close> for the formatter that \<^verbatim>\<open>basicConfig\<close> builds.
\<close>

record formatter =
  f_fmt :: string
  f_datefmt :: "string option"

definition Formatter :: "string \<Rightarrow> string option \<Rightarrow> formatter" where
  "Formatter fmt datefmt =
     \<lparr>f_fmt = (if fmt = [] then ''%(message)s'' else fmt), f_datefmt = datefmt\<rparr>"

definition BASIC_FORMAT :: string where
  "BASIC_FORMAT = ''%(levelname)s:%(name)s:%(message)s''"

datatype handler_class = StreamHandler | FileHandler | ArcPyLogHandler

text \<open>
  The attributes of a handler object that the module reads or writes: its class, its
  threshold, its formatter (\<^verbatim>\<open>None\<close> until \<^verbatim>\<open>setFormatter\<close>), the name of the
  stream it writes to (the file name it was opened with, or the standard error stream), the
  mode the file was opened in, and whether the stream is still open.
\<close>

record handler =
  h_class :: handler_class
  h_level :: int
  h_formatter :: "formatter option"
  h_stream :: string
  h_mode :: string
  h_open :: bool

record log_record =
  levelno :: int
  msg :: string
  args :: "string list"

text \<open>The calls the module makes on the host (\<^verbatim>\<open>arcpy\<close>) and on streams.\<close>

datatype arcpy_call = AddError string | AddWarning string | AddMessage string

datatype stream_op = Open string string | Write string string | Flush string | Close string

text \<open>
  What the module reads from outside the process: the environment variables
  (\<^verbatim>\<open>os.getenv\<close> gives \<^verbatim>\<open>None\<close> for a variable that is not set), the result of
  \<^verbatim>\<open>socket.gethostname()\<close>, which raises when the lookup fails, and whether a file can
  be opened in a given mode.
\<close>

record environ =
  getenv :: "string \<Rightarrow> string option"
  gethostname :: "exn + string"
  can_open :: "string \<Rightarrow> string \<Rightarrow> bool"

text \<open>
  The process-wide state: the handler list and the level of the root logger, the object
  store with its allocation counter, the list \<^verbatim>\<open>logging._handlerList\<close> of every handler
  created, and the traces of stream operations and of host calls.
\<close>

record world =
  root_handlers :: "ref list"
  root_level :: int
  objects :: "ref \<Rightarrow> handler"
  next_ref :: ref
  handlerList :: "ref list"
  stream_ops :: "stream_op list"
  arcpy_calls :: "arcpy_call list"

section \<open>Library operations used by the module\<close>

text \<open>
  \<^verbatim>\<open>str.upper()\<close> on the ASCII letters, and \<^verbatim>\<open>str.format\<close> for templates whose
  only replacement fields are the auto-numbered \<^verbatim>\<open>{}\<close>, which is the form the module
  uses (its template has two fields and gets two arguments). An argument that is
  \<^verbatim>\<open>None\<close> is rendered as the text \<^verbatim>\<open>None\<close>.
\<close>

definition upper_char :: "char \<Rightarrow> char" where
  "upper_char c =
     (let n = (of_char c :: nat) in if 97 \<le> n \<and> n \<le> 122 then char_of (n - 32) else c)"

definition upper :: "string \<Rightarrow> string" where
  "upper s = map upper_char s"

definition py_str :: "string option \<Rightarrow> string" where
  "py_str v = (case v of None \<Rightarrow> ''None'' | Some s \<Rightarrow> s)"

fun str_format :: "string \<Rightarrow> string list \<Rightarrow> string" where
  "str_format [] as = []"
| "str_format [c] as = [c]"
| "str_format (c # d # cs) [] = c # str_format (d # cs) []"
| "str_format (c # d # cs) (a # as) =
     (if c = CHR ''{'' \<and> d = CHR ''}'' then a @ str_format cs as
      else c # str_format (d # cs) (a # as))"

text \<open>\<^verbatim>\<open>Logger.addHandler\<close> and \<^verbatim>\<open>Logger.removeHandler\<close> on the root logger.\<close>

definition addHandler :: "ref \<Rightarrow> world \<Rightarrow> world" where
  "addHandler hdlr s =
     (if \<not> (hdlr \<in> set (root_handlers s))
      then s\<lparr>root_handlers := root_handlers s @ [hdlr]\<rparr> else s)"

definition removeHandler :: "ref \<Rightarrow> world \<Rightarrow> world" where
  "removeHandler hdlr s =
     (if hdlr \<in> set (root_handlers s)
      then s\<lparr>root_handlers := remove1 hdlr (root_handlers s)\<rparr> else s)"

definition setLevel :: "ref \<Rightarrow> int \<Rightarrow> world \<Rightarrow> world" where
  "setLevel h level s = s\<lparr>objects := (objects s)(h := (objects s h)\<lparr>h_level := level\<rparr>)\<rparr>"

definition setFormatter :: "ref \<Rightarrow> formatter \<Rightarrow> world \<Rightarrow> world" where
  "setFormatter h f s =
     s\<lparr>objects := (objects s)(h := (objects s h)\<lparr>h_formatter := Some f\<rparr>)\<rparr>"

text \<open>
  Creating a handler allocates an object and registers it in \<^verbatim>\<open>_handlerList\<close>.
  A \<^verbatim>\<open>FileHandler\<close> built with \<^verbatim>\<open>delay=False\<close> opens its file first, and raises
  when that fails.
\<close>

definition new_handler :: "handler \<Rightarrow> world \<Rightarrow> ref \<times> world" where
  "new_handler h s =
     (next_ref s,
      s\<lparr>objects := (objects s)(next_ref s := h),
        next_ref := Suc (next_ref s),
        handlerList := handlerList s @ [next_ref s]\<rparr>)"

definition new_StreamHandler :: "world \<Rightarrow> ref \<times> world" where
  "new_StreamHandler s =
     new_handler \<lparr>h_class = StreamHandler, h_level = NOTSET, h_formatter = None,
                  h_stream = ''<stderr>'', h_mode = [], h_open = True\<rparr> s"

definition new_FileHandler :: "environ \<Rightarrow> string \<Rightarrow> string \<Rightarrow> world \<Rightarrow> exn + ref \<times> world" where
  "new_FileHandler env filename mode s =
     (if can_open env filename mode
      then Inr (new_handler
                  \<lparr>h_class = FileHandler, h_level = NOTSET, h_formatter = None,
                   h_stream = filename, h_mode = mode, h_open = True\<rparr>
                  (s\<lparr>stream_ops := stream_ops s @ [Open filename mode]\<rparr>))
      else Inl (Raised ''IOError''))"

text \<open>
  \<^verbatim>\<open>logging.basicConfig(level=...)\<close>: when the root logger has no handler it creates a
  stream handler with the basic format, attaches it and sets the root level; when the root
  logger has a handler it does nothing.
\<close>

definition basicConfig :: "int \<Rightarrow> world \<Rightarrow> world" where
  "basicConfig level s =
     (if length (root_handlers s) = 0
      then (let (hdlr, s1) = new_StreamHandler s;
                s2 = setFormatter hdlr (Formatter BASIC_FORMAT None) s1;
                s3 = addHandler hdlr s2
            in s3\<lparr>root_level := level\<rparr>)
      else s)"

text \<open>
  Flushing and closing a handler. A stream handler flushes its stream when it has one; a
  file handler (and the sink, which inherits from the rotating file handler) closes by
  flushing and closing its stream once; the plain stream handler does not close its stream.
\<close>

definition handler_flush :: "ref \<Rightarrow> world \<Rightarrow> world" where
  "handler_flush h s =
     (if h_open (objects s h)
      then s\<lparr>stream_ops := stream_ops s @ [Flush (h_stream (objects s h))]\<rparr> else s)"

definition handler_close :: "ref \<Rightarrow> world \<Rightarrow> world" where
  "handler_close h s =
     (if h_class (objects s h) = StreamHandler then s
      else if h_open (objects s h)
      then (let s1 = handler_flush h s
            in s1\<lparr>stream_ops := stream_ops s1 @ [Close (h_stream (objects s h))],
                  objects := (objects s1)(h := (objects s1 h)\<lparr>h_open := False\<rparr>)\<rparr>)
      else s)"

text \<open>
  \<^verbatim>\<open>logging.shutdown()\<close> flushes and closes every handler of \<^verbatim>\<open>_handlerList\<close>,
  last created first.
\<close>

definition shutdown :: "world \<Rightarrow> world" where
  "shutdown s = fold (\<lambda>h s. handler_close h (handler_flush h s)) (rev (handlerList s)) s"

section \<open>The module\<close>

text \<open>
  The default template of lines 67 and 92:
  \<^verbatim>\<open>"%(asctime)s {} {} %(message)s".format(os.getenv('USERNAME'), socket.gethostname().upper())\<close>.
\<close>

definition default_fmt :: "environ \<Rightarrow> exn + string" where
  "default_fmt env =
     (let user = getenv env ''USERNAME'' in
      case gethostname env of
        Inl e \<Rightarrow> Inl e
      | Inr host \<Rightarrow>
          Inr (str_format ''%(asctime)s {} {} %(message)s'' [py_str user, upper host]))"

definition default_datefmt :: string where
  "default_datefmt = ''%d-%m-%Y %H:%M''"

text \<open>\<^verbatim>\<open>add_handler(h, level, fmt, datefmt)\<close>, lines 87 to 103.\<close>

definition add_handler :: "environ \<Rightarrow> ref \<Rightarrow> int \<Rightarrow> string \<Rightarrow> string \<Rightarrow> world \<Rightarrow> exn + world" where
  "add_handler env h level fmt datefmt s =
     (case (if fmt = [] then default_fmt env else Inr fmt) of
        Inl e \<Rightarrow> Inl e
      | Inr fmt' \<Rightarrow>
          (let f = Formatter fmt' (Some datefmt);
               s1 = setLevel h level s;
               s2 = setFormatter h f s1
           in Inr (addHandler h s2)))"

text \<open>
  The loop of lines 79 and 80: the indices are fixed when the loop starts, the list is
  read again at every step, and an index outside the list raises.
\<close>

fun remove_loop :: "nat list \<Rightarrow> world \<Rightarrow> exn + world" where
  "remove_loop [] s = Inr s"
| "remove_loop (i # is) s =
     (if i < length (root_handlers s)
      then remove_loop is (removeHandler (root_handlers s ! i) s)
      else Inl (Raised ''IndexError''))"

text \<open>
  \<^verbatim>\<open>init_logging(filename, level, fmt, datefmt, mode)\<close>, lines 32 to 84. The call of
  line 84 passes the new file handler and \<^verbatim>\<open>level\<close> only, so \<^verbatim>\<open>add_handler\<close> runs
  with its own defaults for \<^verbatim>\<open>fmt\<close> and \<^verbatim>\<open>datefmt\<close>.
\<close>

definition init_logging ::
  "environ \<Rightarrow> string \<Rightarrow> int \<Rightarrow> string \<Rightarrow> string \<Rightarrow> string \<Rightarrow> world \<Rightarrow> exn + world" where
  "init_logging env filename level fmt datefmt mode s =
     (case (if fmt = [] then default_fmt env else Inr fmt) of
        Inl e \<Rightarrow> Inl e
      | Inr fmt' \<Rightarrow>
          (let s1 = basicConfig NOTSET s in
           case remove_loop (rev [0..<length (root_handlers s1)]) s1 of
             Inl e \<Rightarrow> Inl e
           | Inr s2 \<Rightarrow>
               (case new_FileHandler env filename mode s2 of
                  Inl e \<Rightarrow> Inl e
                | Inr (h, s3) \<Rightarrow> add_handler env h level [] default_datefmt s3)))"

text \<open>\<^verbatim>\<open>flush_and_close_logger()\<close>, lines 106 to 110.\<close>

definition flush_and_close_logger :: "world \<Rightarrow> world" where
  "flush_and_close_logger s = shutdown (fold handler_flush (root_handlers s) s)"

text \<open>\<^verbatim>\<open>_logging_is_active()\<close>, lines 113 to 116.\<close>

definition logging_is_active :: "world \<Rightarrow> bool" where
  "logging_is_active s = (length (root_handlers s) > 0)"

text \<open>
  \<^verbatim>\<open>ArcPyLogHandler.emit(self, record)\<close>, lines 129 to 150. The handler's
  \<^verbatim>\<open>format\<close> method is a parameter: it gets the handler's formatter and the record and
  gives the text or raises. The bare \<^verbatim>\<open>except\<close> catches whatever it raises.
\<close>

definition arcpy_AddError :: "string \<Rightarrow> world \<Rightarrow> world" where
  "arcpy_AddError m s = s\<lparr>arcpy_calls := arcpy_calls s @ [AddError m]\<rparr>"

definition arcpy_AddWarning :: "string \<Rightarrow> world \<Rightarrow> world" where
  "arcpy_AddWarning m s = s\<lparr>arcpy_calls := arcpy_calls s @ [AddWarning m]\<rparr>"

definition arcpy_AddMessage :: "string \<Rightarrow> world \<Rightarrow> world" where
  "arcpy_AddMessage m s = s\<lparr>arcpy_calls := arcpy_calls s @ [AddMessage m]\<rparr>"

definition emit ::
  "(formatter option \<Rightarrow> log_record \<Rightarrow> exn + string) \<Rightarrow> ref \<Rightarrow> log_record \<Rightarrow> world \<Rightarrow> world" where
  "emit format self record s =
     (let my_msg = (case format (h_formatter (objects s self)) record of
                      Inr m \<Rightarrow> m
                    | Inl e \<Rightarrow> msg record)
      in if levelno record \<ge> ERROR then arcpy_AddError my_msg s
         else if levelno record \<ge> WARNING then arcpy_AddWarning my_msg s
         else arcpy_AddMessage my_msg s)"

text \<open>
  The inherited emit step of the file handlers, which line 153 would call were it not
  commented out: it writes the formatted record to the handler's stream.
\<close>

definition base_emit ::
  "(formatter option \<Rightarrow> log_record \<Rightarrow> exn + string) \<Rightarrow> ref \<Rightarrow> log_record \<Rightarrow> world \<Rightarrow> exn + world" where
  "base_emit format self record s =
     (case format (h_formatter (objects s self)) record of
        Inl e \<Rightarrow> Inl e
      | Inr m \<Rightarrow> Inr (s\<lparr>stream_ops := stream_ops s @ [Write (h_stream (objects s self)) m]\<rparr>))"

section \<open>Concrete environments and states\<close>

definition alice_env :: environ where
  "alice_env =
     \<lparr>getenv = (\<lambda>v. if v = ''USERNAME'' then Some ''alice'' else None),
      gethostname = Inr ''box1'',
      can_open = (\<lambda>f m. True)\<rparr>"

definition no_host_env :: environ where
  "no_host_env =
     \<lparr>getenv = (\<lambda>v. if v = ''USERNAME'' then Some ''alice'' else None),
      gethostname = Inl (Raised ''socket.error''),
      can_open = (\<lambda>f m. True)\<rparr>"

definition no_user_env :: environ where
  "no_user_env =
     \<lparr>getenv = (\<lambda>v. None),
      gethostname = Inr ''box1'',
      can_open = (\<lambda>f m. True)\<rparr>"

definition blank_handler :: handler where
  "blank_handler =
     \<lparr>h_class = ArcPyLogHandler, h_level = NOTSET, h_formatter = None,
      h_stream = ''sink.txt'', h_mode = ''a'', h_open = True\<rparr>"

text \<open>A facility with no handler attached; object 0 is a sink that was created but not attached.\<close>

definition pristine :: world where
  "pristine =
     \<lparr>root_handlers = [], root_level = WARNING, objects = (\<lambda>r. blank_handler),
      next_ref = 1, handlerList = [0], stream_ops = [], arcpy_calls = []\<rparr>"

text \<open>A facility left by an earlier run, with two handlers attached.\<close>

definition two_attached :: world where
  "two_attached = pristine\<lparr>root_handlers := [0, 1], next_ref := 2, handlerList := [0, 1]\<rparr>"

text \<open>A facility with the sink (object 0) attached.\<close>

definition one_attached :: world where
  "one_attached = pristine\<lparr>root_handlers := [0]\<rparr>"

text \<open>
  A stand-in for the handler's \<^verbatim>\<open>format\<close> method: it prefixes the message of a
  record without arguments and raises for a record with arguments.
\<close>

definition tagging_format :: "formatter option \<Rightarrow> log_record \<Rightarrow> exn + string" where
  "tagging_format f r =
     (if args r = [] then Inr (''run: '' @ msg r) else Inl (Raised ''TypeError''))"

section \<open>Auxiliary facts\<close>

text \<open>
  The removal loop empties the handler list whatever its length, and never reads outside
  it: when the index \<open>n\<close> is used the list has \<open>n + 1\<close> entries, and removing the entry
  read at \<open>n\<close> (its first occurrence) leaves \<open>n\<close>.
\<close>

lemma remove_loop_empties:
  "length (root_handlers s) = n \<Longrightarrow>
   remove_loop (rev [0..<n]) s = Inr (s\<lparr>root_handlers := []\<rparr>)"
proof (induction n arbitrary: s)
  case 0
  then show ?case by simp
next
  case (Suc n)
  let ?h = "root_handlers s ! n"
  let ?s = "removeHandler ?h s"
  from Suc.prems have mem: "?h \<in> set (root_handlers s)" by simp
  then have step: "?s = s\<lparr>root_handlers := remove1 ?h (root_handlers s)\<rparr>"
    by (simp add: removeHandler_def)
  from mem Suc.prems have len: "length (root_handlers ?s) = n"
    by (simp add: step length_remove1)
  from Suc.IH [OF len] have "remove_loop (rev [0..<n]) ?s = Inr (?s\<lparr>root_handlers := []\<rparr>)" .
  moreover have "?s\<lparr>root_handlers := []\<rparr> = s\<lparr>root_handlers := []\<rparr>"
    by (simp add: step)
  ultimately show ?case using Suc.prems by simp
qed

lemma str_format_plain: "CHR ''{'' \<notin> set t \<Longrightarrow> str_format t as = t"
  by (induction t as rule: str_format.induct) auto

lemma default_fmt_ok:
  "gethostname env = Inr host \<Longrightarrow>
   default_fmt env =
     Inr (''%(asctime)s '' @ py_str (getenv env ''USERNAME'') @ '' '' @ upper host @ '' %(message)s'')"
  by (simp add: default_fmt_def str_format_plain)

lemma default_fmt_fail: "gethostname env = Inl e \<Longrightarrow> default_fmt env = Inl e"
  by (simp add: default_fmt_def)

lemma add_handler_result:
  assumes "(if fmt = [] then default_fmt env else Inr fmt) = Inr f"
  shows "add_handler env h level fmt datefmt s =
         Inr (addHandler h (setFormatter h (Formatter f (Some datefmt)) (setLevel h level s)))"
  using assms by (simp add: add_handler_def)

lemma configured_handler:
  "objects (addHandler h (setFormatter h f (setLevel h level s))) =
   (objects s)(h := (objects s h)\<lparr>h_level := level, h_formatter := Some f\<rparr>)"
  by (simp add: addHandler_def setFormatter_def setLevel_def)

lemma configured_registry:
  "root_handlers (addHandler h (setFormatter h f (setLevel h level s))) =
   (if h \<in> set (root_handlers s) then root_handlers s else root_handlers s @ [h])"
  by (simp add: addHandler_def setFormatter_def setLevel_def)

lemma basicConfig_next_ref: "next_ref s \<le> next_ref (basicConfig level s)"
  by (simp add: basicConfig_def new_StreamHandler_def new_handler_def addHandler_def
      setFormatter_def Let_def)

text \<open>
  What a call of \<^verbatim>\<open>init_logging\<close> gives when the host name can be read and the file
  can be opened: the object allocated after \<^verbatim>\<open>basicConfig\<close> is the only handler.
\<close>

lemma init_logging_result:
  assumes host: "gethostname env = Inr host" and op: "can_open env filename mode"
  shows "\<exists>s'. init_logging env filename level fmt datefmt mode s = Inr s'
     \<and> root_handlers s' = [next_ref (basicConfig NOTSET s)]
     \<and> next_ref s' = Suc (next_ref (basicConfig NOTSET s))
     \<and> objects s' (next_ref (basicConfig NOTSET s)) =
         \<lparr>h_class = FileHandler, h_level = level,
          h_formatter = Some (Formatter (''%(asctime)s '' @ py_str (getenv env ''USERNAME'')
                                 @ '' '' @ upper host @ '' %(message)s'') (Some default_datefmt)),
          h_stream = filename, h_mode = mode, h_open = True\<rparr>"
proof -
  let ?b = "basicConfig NOTSET s"
  have d: "default_fmt env =
      Inr (''%(asctime)s '' @ py_str (getenv env ''USERNAME'') @ '' '' @ upper host @ '' %(message)s'')"
    using host by (rule default_fmt_ok)
  have l: "remove_loop (rev [0..<length (root_handlers ?b)]) ?b = Inr (?b\<lparr>root_handlers := []\<rparr>)"
    by (rule remove_loop_empties) simp
  show ?thesis
    using op
    by (simp add: init_logging_def d l new_FileHandler_def new_handler_def add_handler_def
        addHandler_def setFormatter_def setLevel_def Let_def)
qed

lemma upper_box1: "upper ''box1'' = ''BOX1''"
  by code_simp

text \<open>Flushing and closing change neither the handler list of the root logger nor the class of
  any handler; closing a file handler leaves it closed.\<close>

lemma flush_keeps:
  "root_handlers (handler_flush h s) = root_handlers s"
  "handlerList (handler_flush h s) = handlerList s"
  "objects (handler_flush h s) = objects s"
  "set (stream_ops s) \<subseteq> set (stream_ops (handler_flush h s))"
  by (auto simp add: handler_flush_def)

lemma close_keeps:
  "root_handlers (handler_close h s) = root_handlers s"
  "h_class (objects (handler_close h s) r) = h_class (objects s r)"
  "h_stream (objects (handler_close h s) r) = h_stream (objects s r)"
  "\<not> h_open (objects s r) \<Longrightarrow> \<not> h_open (objects (handler_close h s) r)"
  "set (stream_ops s) \<subseteq> set (stream_ops (handler_close h s))"
  by (auto simp add: handler_close_def handler_flush_def Let_def)

lemma close_closes:
  "h_class (objects s h) \<noteq> StreamHandler \<Longrightarrow> \<not> h_open (objects (handler_close h s) h)"
  by (simp add: handler_close_def handler_flush_def Let_def)

lemma flush_records:
  "h_open (objects s h) \<Longrightarrow> Flush (h_stream (objects s h)) \<in> set (stream_ops (handler_flush h s))"
  by (simp add: handler_flush_def)

lemma fold_flush_keeps:
  "root_handlers (fold handler_flush hs s) = root_handlers s
   \<and> objects (fold handler_flush hs s) = objects s
   \<and> handlerList (fold handler_flush hs s) = handlerList s
   \<and> set (stream_ops s) \<subseteq> set (stream_ops (fold handler_flush hs s))"
proof (induction hs arbitrary: s)
  case Nil
  show ?case by simp
next
  case (Cons h hs)
  from Cons.IH [of "handler_flush h s"] flush_keeps [where h = h and s = s]
  show ?case by auto
qed

lemma fold_flush_records:
  "h \<in> set hs \<Longrightarrow> h_open (objects s h) \<Longrightarrow>
   Flush (h_stream (objects s h)) \<in> set (stream_ops (fold handler_flush hs s))"
proof (induction hs arbitrary: s)
  case Nil
  then show ?case by simp
next
  case (Cons x hs)
  show ?case
  proof (cases "x = h")
    case True
    from Cons.prems(2) have "Flush (h_stream (objects s h)) \<in> set (stream_ops (handler_flush h s))"
      by (rule flush_records)
    with fold_flush_keeps [of hs "handler_flush h s"] True show ?thesis by auto
  next
    case False
    with Cons.prems have "h \<in> set hs" by simp
    moreover from Cons.prems(2) have "h_open (objects (handler_flush x s) h)"
      by (simp add: flush_keeps)
    ultimately have "Flush (h_stream (objects (handler_flush x s) h))
        \<in> set (stream_ops (fold handler_flush hs (handler_flush x s)))"
      by (rule Cons.IH)
    then show ?thesis by (simp add: flush_keeps)
  qed
qed

lemma fold_close_keeps:
  "root_handlers (fold (\<lambda>h s. handler_close h (handler_flush h s)) hs s) = root_handlers s
   \<and> h_class (objects (fold (\<lambda>h s. handler_close h (handler_flush h s)) hs s) r) = h_class (objects s r)
   \<and> (\<not> h_open (objects s r) \<longrightarrow>
        \<not> h_open (objects (fold (\<lambda>h s. handler_close h (handler_flush h s)) hs s) r))
   \<and> set (stream_ops s) \<subseteq> set (stream_ops (fold (\<lambda>h s. handler_close h (handler_flush h s)) hs s))"
proof (induction hs arbitrary: s)
  case Nil
  show ?case by simp
next
  case (Cons h hs)
  let ?s = "handler_close h (handler_flush h s)"
  have a: "root_handlers ?s = root_handlers s" by (simp add: close_keeps flush_keeps)
  have b: "h_class (objects ?s r) = h_class (objects s r)" by (simp add: close_keeps flush_keeps)
  have c: "\<not> h_open (objects s r) \<longrightarrow> \<not> h_open (objects ?s r)"
    using close_keeps(4) [where s = "handler_flush h s" and r = r and h = h] by (simp add: flush_keeps)
  have d: "set (stream_ops s) \<subseteq> set (stream_ops ?s)"
    using close_keeps(5) [where s = "handler_flush h s" and h = h] flush_keeps(4) [where s = s and h = h] by blast
  from Cons.IH [of ?s] a b c d show ?case by auto
qed

lemma fold_close_closes:
  "h \<in> set hs \<Longrightarrow> h_class (objects s h) \<noteq> StreamHandler \<Longrightarrow>
   \<not> h_open (objects (fold (\<lambda>h s. handler_close h (handler_flush h s)) hs s) h)"
proof (induction hs arbitrary: s)
  case Nil
  then show ?case by simp
next
  case (Cons x hs)
  let ?s = "handler_close x (handler_flush x s)"
  have cls: "h_class (objects ?s h) \<noteq> StreamHandler"
    using Cons.prems(2) by (simp add: close_keeps flush_keeps)
  show ?case
  proof (cases "x = h")
    case True
    have "\<not> h_open (objects ?s h)"
      unfolding True using Cons.prems(2) by (intro close_closes) (simp add: flush_keeps)
    with fold_close_keeps [where hs = hs and s = ?s and r = h] show ?thesis by simp
  next
    case False
    with Cons.prems have "h \<in> set hs" by simp
    from Cons.IH [OF this cls] show ?thesis by simp
  qed
qed

section \<open>The claims\<close>

text \<open>
  C1. Whatever handlers are attached to the root logger before the call (any number,
  none included), the removal loop of \<^verbatim>\<open>init_logging\<close> empties the list without an
  index error, and the call then attaches one new file handler: when the host name can be
  read and the file can be opened, the call returns with exactly one handler attached, an
  object allocated during the call, of class \<^verbatim>\<open>FileHandler\<close>, opened on the given file.
  A second call leaves exactly one handler again, the second call's, which is not the first
  call's.
\<close>

theorem init_logging_leaves_one_handler:
  assumes "gethostname env = Inr host" and "can_open env f1 m1" and "can_open env f2 m2"
  shows "remove_loop (rev [0..<length (root_handlers s)]) s = Inr (s\<lparr>root_handlers := []\<rparr>)
    \<and> (\<exists>s1 r1. init_logging env f1 l1 t1 d1 m1 s = Inr s1
          \<and> root_handlers s1 = [r1] \<and> next_ref s \<le> r1
          \<and> h_class (objects s1 r1) = FileHandler \<and> h_stream (objects s1 r1) = f1
          \<and> (\<exists>s2 r2. init_logging env f2 l2 t2 d2 m2 s1 = Inr s2
                \<and> root_handlers s2 = [r2] \<and> r2 \<noteq> r1 \<and> next_ref s1 \<le> r2
                \<and> h_class (objects s2 r2) = FileHandler \<and> h_stream (objects s2 r2) = f2))"
proof -
  have loop: "remove_loop (rev [0..<length (root_handlers s)]) s = Inr (s\<lparr>root_handlers := []\<rparr>)"
    by (rule remove_loop_empties) simp
  from init_logging_result [OF assms(1) assms(2), of l1 t1 d1 s]
  obtain s1 where s1: "init_logging env f1 l1 t1 d1 m1 s = Inr s1"
    and h1: "root_handlers s1 = [next_ref (basicConfig NOTSET s)]"
    and n1: "next_ref s1 = Suc (next_ref (basicConfig NOTSET s))"
    and o1: "h_class (objects s1 (next_ref (basicConfig NOTSET s))) = FileHandler"
            "h_stream (objects s1 (next_ref (basicConfig NOTSET s))) = f1"
    by auto
  from init_logging_result [OF assms(1) assms(3), of l2 t2 d2 s1]
  obtain s2 where s2: "init_logging env f2 l2 t2 d2 m2 s1 = Inr s2"
    and h2: "root_handlers s2 = [next_ref (basicConfig NOTSET s1)]"
    and o2: "h_class (objects s2 (next_ref (basicConfig NOTSET s1))) = FileHandler"
            "h_stream (objects s2 (next_ref (basicConfig NOTSET s1))) = f2"
    by auto
  have b1: "next_ref s \<le> next_ref (basicConfig NOTSET s)" by (rule basicConfig_next_ref)
  have b2: "next_ref s1 \<le> next_ref (basicConfig NOTSET s1)" by (rule basicConfig_next_ref)
  from b2 n1 have ne: "next_ref (basicConfig NOTSET s1) \<noteq> next_ref (basicConfig NOTSET s)" by simp
  show ?thesis using loop s1 h1 o1 s2 h2 o2 b1 b2 ne by simp
qed

theorem init_logging_leaves_one_handler_witness:
  "gethostname alice_env = Inr ''box1'' \<and> can_open alice_env ''a.txt'' ''a''
   \<and> can_open alice_env ''b.txt'' ''w''
   \<and> root_handlers two_attached = [0, 1]
   \<and> (\<exists>s1 r1. init_logging alice_env ''a.txt'' INFO [] default_datefmt ''a'' two_attached = Inr s1
          \<and> root_handlers s1 = [r1] \<and> next_ref two_attached \<le> r1
          \<and> (\<exists>s2 r2. init_logging alice_env ''b.txt'' DEBUG [] default_datefmt ''w'' s1 = Inr s2
                \<and> root_handlers s2 = [r2] \<and> r2 \<noteq> r1))"
  using init_logging_leaves_one_handler [where env = alice_env and host = "''box1''"
      and ?f1.0 = "''a.txt''" and ?m1.0 = "''a''" and ?f2.0 = "''b.txt''" and ?m2.0 = "''w''"
      and s = two_attached and ?l1.0 = INFO and ?t1.0 = "[]" and ?d1.0 = default_datefmt
      and ?l2.0 = DEBUG and ?t2.0 = "[]" and ?d2.0 = default_datefmt]
  by (simp add: alice_env_def two_attached_def pristine_def) blast

text \<open>
  C2. \<^verbatim>\<open>emit\<close> makes exactly one host call per record, with the formatted message (the
  raw message when formatting raises): \<^verbatim>\<open>AddError\<close> when the level is at least ERROR,
  \<^verbatim>\<open>AddWarning\<close> when it is at least WARNING and below ERROR, \<^verbatim>\<open>AddMessage\<close>
  for every lower level.
\<close>

theorem emit_routes_by_severity:
  "\<exists>m. m = (case format (h_formatter (objects s self)) r of Inr x \<Rightarrow> x | Inl e \<Rightarrow> msg r)
     \<and> (ERROR \<le> levelno r \<longrightarrow> arcpy_calls (emit format self r s) = arcpy_calls s @ [AddError m])
     \<and> (WARNING \<le> levelno r \<and> levelno r < ERROR \<longrightarrow>
           arcpy_calls (emit format self r s) = arcpy_calls s @ [AddWarning m])
     \<and> (levelno r < WARNING \<longrightarrow> arcpy_calls (emit format self r s) = arcpy_calls s @ [AddMessage m])"
  by (simp add: emit_def arcpy_AddError_def arcpy_AddWarning_def arcpy_AddMessage_def
      ERROR_def WARNING_def Let_def)

theorem emit_routes_by_severity_witness:
  "arcpy_calls (emit tagging_format 0 \<lparr>levelno = ERROR, msg = ''disk full'', args = []\<rparr> pristine)
     = [AddError ''run: disk full'']
   \<and> arcpy_calls (emit tagging_format 0 \<lparr>levelno = WARNING, msg = ''slow'', args = []\<rparr> pristine)
     = [AddWarning ''run: slow'']
   \<and> arcpy_calls (emit tagging_format 0 \<lparr>levelno = INFO, msg = ''done'', args = []\<rparr> pristine)
     = [AddMessage ''run: done'']
   \<and> arcpy_calls (emit tagging_format 0 \<lparr>levelno = DEBUG, msg = ''x = 1'', args = []\<rparr> pristine)
     = [AddMessage ''run: x = 1'']"
  using emit_routes_by_severity [where format = tagging_format and s = pristine and self = 0
      and r = "\<lparr>levelno = ERROR, msg = ''disk full'', args = []\<rparr>"]
    emit_routes_by_severity [where format = tagging_format and s = pristine and self = 0
      and r = "\<lparr>levelno = WARNING, msg = ''slow'', args = []\<rparr>"]
    emit_routes_by_severity [where format = tagging_format and s = pristine and self = 0
      and r = "\<lparr>levelno = INFO, msg = ''done'', args = []\<rparr>"]
    emit_routes_by_severity [where format = tagging_format and s = pristine and self = 0
      and r = "\<lparr>levelno = DEBUG, msg = ''x = 1'', args = []\<rparr>"]
  by (simp add: tagging_format_def pristine_def ERROR_def WARNING_def INFO_def DEBUG_def)

text \<open>
  C5. When formatting the record raises, whatever the exception, \<^verbatim>\<open>emit\<close> makes its
  one host call with the raw message of the record; \<^verbatim>\<open>emit\<close> has no raising branch,
  since its only fallible step is inside the \<^verbatim>\<open>try\<close>.
\<close>

theorem emit_falls_back_to_raw_message:
  assumes "format (h_formatter (objects s self)) r = Inl e"
  shows "arcpy_calls (emit format self r s) =
         arcpy_calls s @ [if ERROR \<le> levelno r then AddError (msg r)
                          else if WARNING \<le> levelno r then AddWarning (msg r)
                          else AddMessage (msg r)]"
  using assms
  by (simp add: emit_def arcpy_AddError_def arcpy_AddWarning_def arcpy_AddMessage_def)

theorem emit_falls_back_to_raw_message_witness:
  "tagging_format (h_formatter (objects pristine 0))
      \<lparr>levelno = WARNING, msg = ''%d items'', args = [''many'']\<rparr> = Inl (Raised ''TypeError'')
   \<and> arcpy_calls (emit tagging_format 0 \<lparr>levelno = WARNING, msg = ''%d items'', args = [''many'']\<rparr> pristine)
     = [AddWarning ''%d items'']"
  using emit_falls_back_to_raw_message [of tagging_format pristine 0
      "\<lparr>levelno = WARNING, msg = ''%d items'', args = [''many'']\<rparr>" "Raised ''TypeError''"]
  by (simp add: tagging_format_def pristine_def ERROR_def WARNING_def)

text \<open>
  C7. \<^verbatim>\<open>emit\<close> changes nothing but the trace of host calls, to which it appends one
  call: it performs no stream operation, whereas the inherited emit step, when it returns,
  writes to the handler's stream.
\<close>

theorem emit_writes_no_stream:
  "(\<exists>c. emit format self r s = s\<lparr>arcpy_calls := arcpy_calls s @ [c]\<rparr>)
   \<and> stream_ops (emit format self r s) = stream_ops s
   \<and> (\<forall>s'. base_emit format self r s = Inr s' \<longrightarrow> stream_ops s' \<noteq> stream_ops (emit format self r s))"
  by (auto simp add: emit_def base_emit_def arcpy_AddError_def arcpy_AddWarning_def arcpy_AddMessage_def
      Let_def split: sum.splits)

theorem emit_writes_no_stream_witness:
  "stream_ops (emit tagging_format 0 \<lparr>levelno = INFO, msg = ''done'', args = []\<rparr> pristine) = []
   \<and> base_emit tagging_format 0 \<lparr>levelno = INFO, msg = ''done'', args = []\<rparr> pristine
       = Inr (pristine\<lparr>stream_ops := [Write ''sink.txt'' ''run: done'']\<rparr>)"
  using emit_writes_no_stream [of tagging_format 0 "\<lparr>levelno = INFO, msg = ''done'', args = []\<rparr>" pristine]
  by (simp add: base_emit_def tagging_format_def pristine_def blank_handler_def)

text \<open>
  C8. \<^verbatim>\<open>_logging_is_active()\<close> is true exactly when some handler is attached to the
  root logger: false when the handler list is empty, true in the state that any returning
  call of \<^verbatim>\<open>add_handler\<close> leaves.
\<close>

theorem logging_is_active_iff_handler_attached:
  "(logging_is_active s \<longleftrightarrow> (\<exists>h. h \<in> set (root_handlers s)))
   \<and> (root_handlers s = [] \<longrightarrow> \<not> logging_is_active s)
   \<and> (add_handler env h level fmt datefmt s = Inr s' \<longrightarrow> logging_is_active s')"
proof -
  have "(logging_is_active s \<longleftrightarrow> (\<exists>h. h \<in> set (root_handlers s)))"
    by (cases "root_handlers s") (auto simp add: logging_is_active_def)
  moreover have "add_handler env h level fmt datefmt s = Inr s' \<longrightarrow> logging_is_active s'"
    by (auto simp add: add_handler_def logging_is_active_def addHandler_def setFormatter_def
        setLevel_def Let_def split: sum.splits if_splits)
  ultimately show ?thesis by (simp add: logging_is_active_def)
qed

theorem logging_is_active_iff_handler_attached_witness:
  "root_handlers pristine = [] \<and> \<not> logging_is_active pristine
   \<and> (\<exists>s'. add_handler alice_env 0 INFO [] default_datefmt pristine = Inr s'
         \<and> root_handlers s' = [0] \<and> logging_is_active s')"
proof -
  have d: "default_fmt alice_env = Inr (''%(asctime)s '' @ py_str (getenv alice_env ''USERNAME'')
      @ '' '' @ upper ''box1'' @ '' %(message)s'')"
    by (rule default_fmt_ok) (simp add: alice_env_def)
  have a: "add_handler alice_env 0 INFO [] default_datefmt pristine =
      Inr (addHandler 0 (setFormatter 0 (Formatter (''%(asctime)s '' @ py_str (getenv alice_env ''USERNAME'')
      @ '' '' @ upper ''box1'' @ '' %(message)s'') (Some default_datefmt)) (setLevel 0 INFO pristine)))"
    by (rule add_handler_result) (simp add: d)
  show ?thesis
    using logging_is_active_iff_handler_attached [where s = pristine and env = alice_env and h = 0
      and level = INFO and fmt = "[]" and datefmt = default_datefmt] a
    by (simp add: pristine_def addHandler_def setFormatter_def setLevel_def)
qed

text \<open>
  C10. \<^verbatim>\<open>flush_and_close_logger\<close> leaves the handler list of the root logger as it
  was, so \<^verbatim>\<open>_logging_is_active\<close> stays true when it was true. Every attached handler
  with an open stream is flushed, and every attached file handler or sink is closed (and
  stays attached).
\<close>

theorem flush_and_close_keeps_handlers:
  "root_handlers (flush_and_close_logger s) = root_handlers s
   \<and> (logging_is_active s \<longrightarrow> logging_is_active (flush_and_close_logger s))
   \<and> (\<forall>h \<in> set (root_handlers s). h_open (objects s h) \<longrightarrow>
         Flush (h_stream (objects s h)) \<in> set (stream_ops (flush_and_close_logger s)))
   \<and> (\<forall>h \<in> set (root_handlers s). h \<in> set (handlerList s) \<and> h_class (objects s h) \<noteq> StreamHandler \<longrightarrow>
         \<not> h_open (objects (flush_and_close_logger s) h))"
proof -
  let ?s = "fold handler_flush (root_handlers s) s"
  have k: "root_handlers ?s = root_handlers s" "objects ?s = objects s"
    and hl: "handlerList ?s = handlerList s"
    using fold_flush_keeps [of "root_handlers s" s] by simp_all
  have r: "root_handlers (flush_and_close_logger s) = root_handlers s"
    using fold_close_keeps [where hs = "rev (handlerList ?s)" and s = ?s] k
    by (simp add: flush_and_close_logger_def shutdown_def)
  have f: "Flush (h_stream (objects s h)) \<in> set (stream_ops (flush_and_close_logger s))"
    if "h \<in> set (root_handlers s)" "h_open (objects s h)" for h
  proof -
    from that have "Flush (h_stream (objects s h)) \<in> set (stream_ops ?s)"
      by (rule fold_flush_records)
    with fold_close_keeps [where s = ?s and hs = "rev (handlerList ?s)"] show ?thesis
      by (auto simp add: flush_and_close_logger_def shutdown_def)
  qed
  have c: "\<not> h_open (objects (flush_and_close_logger s) h)"
    if "h \<in> set (handlerList s)" "h_class (objects s h) \<noteq> StreamHandler" for h
  proof -
    from that have "h \<in> set (rev (handlerList ?s))" "h_class (objects ?s h) \<noteq> StreamHandler"
      by (simp_all add: hl k)
    then show ?thesis
      unfolding flush_and_close_logger_def shutdown_def by (rule fold_close_closes)
  qed
  show ?thesis using r f c by (simp add: logging_is_active_def)
qed

theorem flush_and_close_keeps_handlers_witness:
  "logging_is_active one_attached \<and> 0 \<in> set (root_handlers one_attached)
   \<and> 0 \<in> set (handlerList one_attached) \<and> h_open (objects one_attached 0)
   \<and> h_class (objects one_attached 0) \<noteq> StreamHandler
   \<and> root_handlers (flush_and_close_logger one_attached) = [0]
   \<and> logging_is_active (flush_and_close_logger one_attached)
   \<and> Flush ''sink.txt'' \<in> set (stream_ops (flush_and_close_logger one_attached))
   \<and> \<not> h_open (objects (flush_and_close_logger one_attached) 0)"
  using flush_and_close_keeps_handlers [of one_attached]
  by (simp add: one_attached_def pristine_def blank_handler_def logging_is_active_def)

text \<open>
  C4. When the user name is set and the host name can be read, the default template is
  \<^verbatim>\<open>%(asctime)s\<close>, a space, the user name, a space, the host name in upper case, and
  \<^verbatim>\<open> %(message)s\<close>. It is the template of the formatter that \<^verbatim>\<open>add_handler\<close>
  sets when called with an empty template, and of the formatter of the handler that
  \<^verbatim>\<open>init_logging\<close> attaches when called with an empty template. For user alice on host
  box1 it is \<^verbatim>\<open>%(asctime)s alice BOX1 %(message)s\<close>.
\<close>

theorem default_template_when_fmt_empty:
  assumes "getenv env ''USERNAME'' = Some user" and "gethostname env = Inr host"
  shows "default_fmt env = Inr (''%(asctime)s '' @ user @ '' '' @ upper host @ '' %(message)s'')
    \<and> (\<exists>s'. add_handler env h level [] datefmt s = Inr s'
          \<and> map_option f_fmt (h_formatter (objects s' h)) =
              Some (''%(asctime)s '' @ user @ '' '' @ upper host @ '' %(message)s''))
    \<and> (can_open env filename mode \<longrightarrow>
         (\<exists>s' r. init_logging env filename level [] datefmt' mode s = Inr s'
            \<and> root_handlers s' = [r]
            \<and> map_option f_fmt (h_formatter (objects s' r)) =
                Some (''%(asctime)s '' @ user @ '' '' @ upper host @ '' %(message)s'')))"
proof -
  let ?t = "''%(asctime)s '' @ user @ '' '' @ upper host @ '' %(message)s''"
  have d: "default_fmt env = Inr ?t"
    using default_fmt_ok [OF assms(2)] assms(1) by (simp add: py_str_def)
  have a: "add_handler env h level [] datefmt s =
      Inr (addHandler h (setFormatter h (Formatter ?t (Some datefmt)) (setLevel h level s)))"
    by (rule add_handler_result) (simp add: d)
  have i: "\<exists>s' r. init_logging env filename level [] datefmt' mode s = Inr s'
            \<and> root_handlers s' = [r]
            \<and> map_option f_fmt (h_formatter (objects s' r)) = Some ?t"
    if "can_open env filename mode"
    using init_logging_result [OF assms(2) that, of level "[]" datefmt' s] assms(1)
    by (auto simp add: py_str_def Formatter_def)
  show ?thesis using d a i
    by (simp add: configured_handler Formatter_def)
qed

theorem default_template_when_fmt_empty_witness:
  "getenv alice_env ''USERNAME'' = Some ''alice'' \<and> gethostname alice_env = Inr ''box1''
   \<and> can_open alice_env ''log.txt'' ''a''
   \<and> default_fmt alice_env = Inr ''%(asctime)s alice BOX1 %(message)s''
   \<and> (\<exists>s'. add_handler alice_env 0 INFO [] default_datefmt pristine = Inr s'
          \<and> map_option f_fmt (h_formatter (objects s' 0)) = Some ''%(asctime)s alice BOX1 %(message)s'')
   \<and> (\<exists>s' r. init_logging alice_env ''log.txt'' INFO [] default_datefmt ''a'' pristine = Inr s'
          \<and> root_handlers s' = [r]
          \<and> map_option f_fmt (h_formatter (objects s' r)) = Some ''%(asctime)s alice BOX1 %(message)s'')"
  using default_template_when_fmt_empty [where env = alice_env and user = "''alice''"
      and host = "''box1''" and h = 0 and level = INFO and datefmt = default_datefmt
      and datefmt' = default_datefmt and s = pristine and filename = "''log.txt''" and mode = "''a''"]
  by (simp add: alice_env_def upper_box1)

text \<open>
  C3. \<^verbatim>\<open>init_logging\<close> called with the template \<^verbatim>\<open>%(asctime)s %(message)s\<close> and
  the date format \<^verbatim>\<open>%Y-%m-%d\<close> attaches a handler with the given level, but with the
  default template and the default date format of \<^verbatim>\<open>add_handler\<close>: line 84 passes
  neither \<^verbatim>\<open>fmt\<close> nor \<^verbatim>\<open>datefmt\<close> on.
\<close>

theorem init_logging_drops_fmt_and_datefmt:
  "\<exists>s' r. init_logging alice_env ''log.txt'' WARNING ''%(asctime)s %(message)s'' ''%Y-%m-%d'' ''a'' pristine = Inr s'
     \<and> root_handlers s' = [r]
     \<and> h_level (objects s' r) = WARNING
     \<and> h_formatter (objects s' r) =
         Some \<lparr>f_fmt = ''%(asctime)s alice BOX1 %(message)s'', f_datefmt = Some ''%d-%m-%Y %H:%M''\<rparr>"
  using init_logging_result [where env = alice_env and host = "''box1''" and filename = "''log.txt''"
      and mode = "''a''" and level = WARNING and fmt = "''%(asctime)s %(message)s''"
      and datefmt = "''%Y-%m-%d''" and s = pristine]
  by (auto simp add: alice_env_def upper_box1 py_str_def Formatter_def default_datefmt_def)

text \<open>
  C6. \<^verbatim>\<open>add_handler\<close> on a handler that is attached already does not append it, and
  changes the level and the formatter of that attached handler.
\<close>

theorem add_handler_attached_counterexample:
  "\<not> isl (add_handler alice_env 0 ERROR ''%(message)s'' ''%H:%M'' one_attached)
   \<and> root_handlers one_attached = [0]
   \<and> root_handlers (projr (add_handler alice_env 0 ERROR ''%(message)s'' ''%H:%M'' one_attached)) = [0]
   \<and> h_level (objects one_attached 0) = NOTSET
   \<and> h_level (objects (projr (add_handler alice_env 0 ERROR ''%(message)s'' ''%H:%M'' one_attached)) 0) = ERROR
   \<and> h_formatter (objects one_attached 0) = None
   \<and> h_formatter (objects (projr (add_handler alice_env 0 ERROR ''%(message)s'' ''%H:%M'' one_attached)) 0)
       = Some \<lparr>f_fmt = ''%(message)s'', f_datefmt = Some ''%H:%M''\<rparr>"
  by (simp add: add_handler_def addHandler_def setFormatter_def setLevel_def one_attached_def
      pristine_def blank_handler_def Formatter_def)

text \<open>
  C6, for every handler. When a template is given or the host name can be read,
  \<^verbatim>\<open>add_handler\<close> returns; it sets the level of \<open>h\<close> and gives it a formatter built
  from the given (or default) template and the date format; it changes no other object;
  it appends \<open>h\<close> to the handler list when \<open>h\<close> is not attached yet and leaves the list
  as it is when \<open>h\<close> is attached. A further call with another handler that is not
  attached appends that one after \<open>h\<close>, and leaves the level of \<open>h\<close>.
\<close>

theorem add_handler_configures_and_attaches:
  assumes "fmt \<noteq> [] \<or> gethostname env = Inr host"
  shows "\<exists>s' f. add_handler env h level fmt datefmt s = Inr s'
     \<and> (if fmt = [] then default_fmt env else Inr fmt) = Inr f
     \<and> (h \<notin> set (root_handlers s) \<longrightarrow> root_handlers s' = root_handlers s @ [h])
     \<and> (h \<in> set (root_handlers s) \<longrightarrow> root_handlers s' = root_handlers s)
     \<and> (\<forall>r. r \<noteq> h \<longrightarrow> objects s' r = objects s r)
     \<and> objects s' h = (objects s h)\<lparr>h_level := level, h_formatter := Some (Formatter f (Some datefmt))\<rparr>
     \<and> (\<forall>h2 level2 datefmt2. h2 \<notin> set (root_handlers s) \<and> h \<notin> set (root_handlers s) \<and> h2 \<noteq> h \<longrightarrow>
           (\<exists>s''. add_handler env h2 level2 fmt datefmt2 s' = Inr s''
              \<and> root_handlers s'' = root_handlers s @ [h, h2]
              \<and> h_level (objects s'' h) = level))"
proof -
  from assms obtain f where f: "(if fmt = [] then default_fmt env else Inr fmt) = Inr f"
    by (cases "fmt = []") (auto simp add: default_fmt_ok)
  let ?s = "\<lambda>h level datefmt s. addHandler h (setFormatter h (Formatter f (Some datefmt)) (setLevel h level s))"
  have a: "add_handler env h level fmt datefmt s = Inr (?s h level datefmt s)" for h level datefmt s
    using f by (rule add_handler_result)
  show ?thesis
    using f by (auto simp add: a configured_handler configured_registry)
qed

theorem add_handler_configures_and_attaches_witness:
  "''%(message)s'' \<noteq> [] \<and> gethostname alice_env = Inr ''box1''
   \<and> 0 \<notin> set (root_handlers pristine) \<and> 1 \<notin> set (root_handlers pristine)
   \<and> (\<exists>s'. add_handler alice_env 0 ERROR ''%(message)s'' ''%H:%M'' pristine = Inr s'
         \<and> root_handlers s' = [0]
         \<and> h_level (objects s' 0) = ERROR
         \<and> h_formatter (objects s' 0) = Some \<lparr>f_fmt = ''%(message)s'', f_datefmt = Some ''%H:%M''\<rparr>
         \<and> objects s' 1 = objects pristine 1
         \<and> (\<exists>s''. add_handler alice_env 1 INFO ''%(message)s'' ''%H'' s' = Inr s''
               \<and> root_handlers s'' = [0, 1] \<and> h_level (objects s'' 0) = ERROR))"
proof -
  from add_handler_configures_and_attaches [where fmt = "''%(message)s''" and env = alice_env
      and host = "''box1''" and h = 0 and level = ERROR and datefmt = "''%H:%M''" and s = pristine]
  obtain s' where r: "add_handler alice_env 0 ERROR ''%(message)s'' ''%H:%M'' pristine = Inr s'"
    and l: "0 \<notin> set (root_handlers pristine) \<longrightarrow> root_handlers s' = root_handlers pristine @ [0]"
    and o: "\<forall>r. r \<noteq> 0 \<longrightarrow> objects s' r = objects pristine r"
    and c: "objects s' 0 = (objects pristine 0)\<lparr>h_level := ERROR,
              h_formatter := Some (Formatter ''%(message)s'' (Some ''%H:%M''))\<rparr>"
    and n: "\<forall>h2 level2 datefmt2. h2 \<notin> set (root_handlers pristine)
              \<and> 0 \<notin> set (root_handlers pristine) \<and> h2 \<noteq> 0 \<longrightarrow>
           (\<exists>s''. add_handler alice_env h2 level2 ''%(message)s'' datefmt2 s' = Inr s''
              \<and> root_handlers s'' = root_handlers pristine @ [0, h2]
              \<and> h_level (objects s'' 0) = ERROR)"
    by auto
  have p: "root_handlers pristine = []" by (simp add: pristine_def)
  from n [rule_format, of 1 INFO "''%H''"] p
  obtain s'' where "add_handler alice_env 1 INFO ''%(message)s'' ''%H'' s' = Inr s''"
    "root_handlers s'' = [0, 1]" "h_level (objects s'' 0) = ERROR"
    by auto
  with r l o c p show ?thesis by (simp add: Formatter_def alice_env_def)
qed

text \<open>
  C9. When \<^verbatim>\<open>socket.gethostname()\<close> raises, \<^verbatim>\<open>add_handler\<close> and
  \<^verbatim>\<open>init_logging\<close>, called with an empty template, raise that exception.
\<close>

theorem hostname_failure_counterexample:
  "gethostname no_host_env = Inl (Raised ''socket.error'')
   \<and> add_handler no_host_env 0 INFO [] default_datefmt pristine = Inl (Raised ''socket.error'')
   \<and> init_logging no_host_env ''log.txt'' INFO [] default_datefmt ''a'' pristine = Inl (Raised ''socket.error'')"
  by (simp add: no_host_env_def add_handler_def init_logging_def default_fmt_def)

text \<open>
  C9, for each of the two reads. A user name that is not set appears in the default
  template as the text
  \<^verbatim>\<open>None\<close>, and \<^verbatim>\<open>add_handler\<close> returns. A failure of the host name lookup is not
  caught: the default template is not built, \<^verbatim>\<open>add_handler\<close> with an empty template
  raises the exception of the lookup, and \<^verbatim>\<open>init_logging\<close> raises whatever template
  it is given.
\<close>

theorem environment_failures:
  "(getenv env ''USERNAME'' = None \<and> gethostname env = Inr host \<longrightarrow>
      default_fmt env = Inr (''%(asctime)s None '' @ upper host @ '' %(message)s'')
      \<and> (\<exists>s'. add_handler env h level [] datefmt s = Inr s'))
   \<and> (gethostname env = Inl e \<longrightarrow>
      default_fmt env = Inl e
      \<and> add_handler env h level [] datefmt s = Inl e
      \<and> (\<exists>e'. init_logging env filename level fmt datefmt mode s = Inl e'))"
proof -
  have u: "default_fmt env = Inr (''%(asctime)s None '' @ upper host @ '' %(message)s'')
      \<and> (\<exists>s'. add_handler env h level [] datefmt s = Inr s')"
    if "getenv env ''USERNAME'' = None" "gethostname env = Inr host"
    using default_fmt_ok [OF that(2)] that(1) by (simp add: py_str_def add_handler_def)
  have n: "default_fmt env = Inl e \<and> add_handler env h level [] datefmt s = Inl e
      \<and> (\<exists>e'. init_logging env filename level fmt datefmt mode s = Inl e')"
    if "gethostname env = Inl e"
  proof -
    let ?b = "basicConfig NOTSET s"
    have d: "default_fmt env = Inl e" using that by (rule default_fmt_fail)
    have l: "remove_loop (rev [0..<length (root_handlers ?b)]) ?b = Inr (?b\<lparr>root_handlers := []\<rparr>)"
      by (rule remove_loop_empties) simp
    have a: "add_handler env r level [] default_datefmt t = Inl e" for r t
      by (simp add: add_handler_def d)
    have "\<exists>e'. init_logging env filename level fmt datefmt mode s = Inl e'"
      by (cases "can_open env filename mode")
        (simp_all add: init_logging_def d l a new_FileHandler_def new_handler_def Let_def)
    then show ?thesis by (simp add: d add_handler_def)
  qed
  show ?thesis using u n by blast
qed

theorem environment_failures_witness:
  "getenv no_user_env ''USERNAME'' = None \<and> gethostname no_user_env = Inr ''box1''
   \<and> default_fmt no_user_env = Inr ''%(asctime)s None BOX1 %(message)s''
   \<and> gethostname no_host_env = Inl (Raised ''socket.error'')
   \<and> default_fmt no_host_env = Inl (Raised ''socket.error'')
   \<and> add_handler no_host_env 0 INFO [] default_datefmt pristine = Inl (Raised ''socket.error'')
   \<and> (\<exists>e'. init_logging no_host_env ''log.txt'' INFO ''%(message)s'' default_datefmt ''a'' pristine = Inl e')"
  using environment_failures [where env = no_user_env and host = "''box1''"]
    environment_failures [where env = no_host_env and e = "Raised ''socket.error''" and h = 0
      and level = INFO and datefmt = default_datefmt and s = pristine and filename = "''log.txt''"
      and fmt = "''%(message)s''" and mode = "''a''"]
  by (simp add: no_user_env_def no_host_env_def upper_box1)

end
